theory Spec2Isabelle
  imports Main
begin

section \<open>Wire payloads\<close>

text \<open>
  Identities are snowflakes, taken here as natural numbers. A raw payload is a
  \<^verbatim>\<open>data_binding.JSONObject\<close>: a dictionary from field names to JSON values.
\<close>

type_synonym snowflake = nat

type_synonym shard = nat

datatype json =
    JNull
  | JBool bool
  | JNum int
  | JStr string
  | JArr "json list"
  | JObj "(string \<times> json) list"

type_synonym payload = "string \<rightharpoonup> json"

text \<open>The truth value Python's \<^verbatim>\<open>if\<close> gives to a JSON value.\<close>

fun truthy :: "json \<Rightarrow> bool" where
  "truthy JNull = False"
| "truthy (JBool b) = b"
| "truthy (JNum n) = (n \<noteq> 0)"
| "truthy (JStr s) = (s \<noteq> [])"
| "truthy (JArr xs) = (xs \<noteq> [])"
| "truthy (JObj kvs) = (kvs \<noteq> [])"

text \<open>\<^verbatim>\<open>payload.get(key, default)\<close>.\<close>

definition dict_get :: "payload \<Rightarrow> string \<Rightarrow> json \<Rightarrow> json" where
  "dict_get p k d = (case p k of None \<Rightarrow> d | Some v \<Rightarrow> v)"

section \<open>Decoded models and events\<close>

text \<open>
  A decoded mapping keeps insertion order, which is the order \<^verbatim>\<open>.values()\<close> and
  \<^verbatim>\<open>.keys()\<close> iterate in.
\<close>

type_synonym 'v dict = "(snowflake \<times> 'v) list"

definition dict_keys :: "'v dict \<Rightarrow> snowflake list" where
  "dict_keys d = map fst d"

definition dict_values :: "'v dict \<Rightarrow> 'v list" where
  "dict_values d = map snd d"

record user =
  user_id :: snowflake
  username :: string

record guild =
  guild_id :: snowflake
  guild_name :: string

datatype unavailable_guild = UnavailableGuild snowflake

text \<open>
  Channels, emojis, roles, members, presences and voice states are opaque to the
  handlers: each carries the identity of its guild (\<^verbatim>\<open>guild_id\<close>), its own key
  within that guild, and a body.
\<close>

record child =
  child_guild_id :: snowflake
  child_id :: snowflake
  body :: string

record ready_event =
  my_user :: user
  unavailable_guilds :: "unavailable_guild dict"

text \<open>
  The guild-update event carries \<^verbatim>\<open>guild\<close>, \<^verbatim>\<open>emojis\<close> and \<^verbatim>\<open>roles\<close>; the guild-create
  event carries the same three attributes and four more.
\<close>

record guild_update_event =
  guild :: guild
  emojis :: "child dict"
  roles :: "child dict"

record guild_create_event = guild_update_event +
  channels :: "child dict"
  members :: "child dict"
  presences :: "child dict"
  voice_states :: "child dict"

record guild_unavailable_event =
  unavailable_id :: snowflake

record guild_leave_event =
  leave_id :: snowflake

text \<open>The thirty handlers that only decode and dispatch, one name per method.\<close>

datatype forwarded =
    Channel_create | Channel_update | Channel_delete | Channel_pins_update
  | Guild_ban_add | Guild_ban_remove | Guild_emojis_update | Guild_integrations_update
  | Guild_member_add | Guild_member_remove | Guild_member_update
  | Guild_role_create | Guild_role_update | Guild_role_delete
  | Invite_create | Invite_delete
  | Message_create | Message_update | Message_delete | Message_delete_bulk
  | Message_reaction_add | Message_reaction_remove | Message_reaction_remove_all
  | Message_reaction_remove_emoji
  | Presence_update | Typing_start | User_update | Voice_state_update
  | Voice_server_update | Webhooks_update

datatype event =
    ConnectedEvent shard
  | DisconnectedEvent shard
  | ResumedEvent shard
  | ReadyEvent ready_event
  | GuildCreateEvent guild_create_event
  | GuildUpdateEvent guild_update_event
  | GuildUnavailableEvent guild_unavailable_event
  | GuildLeaveEvent guild_leave_event
  | ForwardedEvent forwarded string

section \<open>The entity factory\<close>

text \<open>
  The decoder is an external collaborator, so it is a parameter of every handler. A
  decoder that raises returns \<open>Inl\<close>.
\<close>

datatype error = DecodeError string

record entity_factory =
  deserialize_ready_event :: "shard \<Rightarrow> payload \<Rightarrow> error + ready_event"
  deserialize_guild_create_event :: "payload \<Rightarrow> error + guild_create_event"
  deserialize_guild_update_event :: "payload \<Rightarrow> error + guild_update_event"
  deserialize_guild_unavailable_event :: "payload \<Rightarrow> error + guild_unavailable_event"
  deserialize_guild_leave_event :: "payload \<Rightarrow> error + guild_leave_event"
  deserialize_event :: "forwarded \<Rightarrow> payload \<Rightarrow> error + string"

section \<open>What a handler does\<close>

text \<open>
  Every handler is a straight line of calls on \<^verbatim>\<open>self.app.cache\<close> followed by
  \<^verbatim>\<open>self.dispatch\<close>. A handler is modelled by the list of those calls, in program
  order, or by the error the decoder raised before the first of them.
\<close>

datatype cache_call =
    Update_me user
  | Set_initial_unavailable_guilds "snowflake list"
  | Update_guild guild
  | Clear_guild_channels snowflake
  | Set_guild_channel child
  | Clear_emojis snowflake
  | Set_emoji child
  | Clear_roles snowflake
  | Set_role child
  | Clear_members snowflake
  | Set_member child
  | Clear_presences snowflake
  | Set_presence child
  | Set_voice_state child
  | Set_guild_availability snowflake bool
  | Delete_guild snowflake

datatype action = Cache cache_call | Dispatch event

definition on_connected :: "entity_factory \<Rightarrow> shard \<Rightarrow> payload \<Rightarrow> error + action list" where
  "on_connected ef sh p = Inr [Dispatch (ConnectedEvent sh)]"

definition on_disconnected :: "entity_factory \<Rightarrow> shard \<Rightarrow> payload \<Rightarrow> error + action list" where
  "on_disconnected ef sh p = Inr [Dispatch (DisconnectedEvent sh)]"

definition on_ready :: "entity_factory \<Rightarrow> shard \<Rightarrow> payload \<Rightarrow> error + action list" where
  "on_ready ef sh p =
     (case deserialize_ready_event ef sh p of
        Inl e \<Rightarrow> Inl e
      | Inr ev \<Rightarrow>
          Inr [Cache (Update_me (my_user ev)),
               Cache (Set_initial_unavailable_guilds (dict_keys (unavailable_guilds ev))),
               Dispatch (ReadyEvent ev)])"

definition on_resumed :: "entity_factory \<Rightarrow> shard \<Rightarrow> payload \<Rightarrow> error + action list" where
  "on_resumed ef sh p = Inr [Dispatch (ResumedEvent sh)]"

definition on_guild_create :: "entity_factory \<Rightarrow> shard \<Rightarrow> payload \<Rightarrow> error + action list" where
  "on_guild_create ef sh p =
     (case deserialize_guild_create_event ef p of
        Inl e \<Rightarrow> Inl e
      | Inr ev \<Rightarrow>
          Inr ([Cache (Update_guild (guild ev))]
               @ [Cache (Clear_guild_channels (guild_id (guild ev)))]
               @ map (\<lambda>c. Cache (Set_guild_channel c)) (dict_values (channels ev))
               @ [Cache (Clear_emojis (guild_id (guild ev)))]
               @ map (\<lambda>c. Cache (Set_emoji c)) (dict_values (emojis ev))
               @ [Cache (Clear_roles (guild_id (guild ev)))]
               @ map (\<lambda>c. Cache (Set_role c)) (dict_values (roles ev))
               @ [Cache (Clear_members (guild_id (guild ev)))]
               @ map (\<lambda>c. Cache (Set_member c)) (dict_values (members ev))
               @ [Cache (Clear_presences (guild_id (guild ev)))]
               @ map (\<lambda>c. Cache (Set_presence c)) (dict_values (presences ev))
               @ map (\<lambda>c. Cache (Set_voice_state c)) (dict_values (voice_states ev))
               @ [Dispatch (GuildCreateEvent ev)]))"

definition on_guild_update :: "entity_factory \<Rightarrow> shard \<Rightarrow> payload \<Rightarrow> error + action list" where
  "on_guild_update ef sh p =
     (case deserialize_guild_update_event ef p of
        Inl e \<Rightarrow> Inl e
      | Inr ev \<Rightarrow>
          Inr ([Cache (Update_guild (guild ev))]
               @ [Cache (Clear_roles (guild_id (guild ev)))]
               @ map (\<lambda>c. Cache (Set_role c)) (dict_values (roles ev))
               @ [Cache (Clear_emojis (guild_id (guild ev)))]
               @ map (\<lambda>c. Cache (Set_emoji c)) (dict_values (emojis ev))
               @ [Dispatch (GuildUpdateEvent ev)]))"

text \<open>
  In the unavailable branch the handler builds a local \<^verbatim>\<open>UnavailableGuild\<close> only to
  carry \<^verbatim>\<open>event.id\<close>; the identity passed to the cache is that of the event.
\<close>

definition on_guild_delete :: "entity_factory \<Rightarrow> shard \<Rightarrow> payload \<Rightarrow> error + action list" where
  "on_guild_delete ef sh p =
     (if truthy (dict_get p ''unavailable'' (JBool False)) then
        (case deserialize_guild_unavailable_event ef p of
           Inl e \<Rightarrow> Inl e
         | Inr ev \<Rightarrow>
             Inr [Cache (Set_guild_availability (unavailable_id ev) False),
                  Dispatch (GuildUnavailableEvent ev)])
      else
        (case deserialize_guild_leave_event ef p of
           Inl e \<Rightarrow> Inl e
         | Inr ev \<Rightarrow>
             Inr [Cache (Delete_guild (leave_id ev)),
                  Dispatch (GuildLeaveEvent ev)]))"

definition on_guild_members_chunk :: "entity_factory \<Rightarrow> shard \<Rightarrow> payload \<Rightarrow> error + action list" where
  "on_guild_members_chunk ef sh p = Inr []"

text \<open>
  \<^verbatim>\<open>on_channel_create\<close>, \<^verbatim>\<open>on_channel_update\<close>, ..., \<^verbatim>\<open>on_webhooks_update\<close>: each is
  \<^verbatim>\<open>await self.dispatch(self.app.entity_factory.deserialize_..._event(payload))\<close>.
\<close>

definition on_forwarded :: "forwarded \<Rightarrow> entity_factory \<Rightarrow> shard \<Rightarrow> payload \<Rightarrow> error + action list" where
  "on_forwarded k ef sh p =
     (case deserialize_event ef k p of
        Inl e \<Rightarrow> Inl e
      | Inr ev \<Rightarrow> Inr [Dispatch (ForwardedEvent k ev)])"

text \<open>The methods of \<^verbatim>\<open>StatefulEventFactoryImpl\<close>, by event name.\<close>

datatype event_name =
    CONNECTED | DISCONNECTED | READY | RESUMED
  | GUILD_CREATE | GUILD_UPDATE | GUILD_DELETE | GUILD_MEMBERS_CHUNK
  | FORWARDED forwarded

fun handler :: "event_name \<Rightarrow> entity_factory \<Rightarrow> shard \<Rightarrow> payload \<Rightarrow> error + action list" where
  "handler CONNECTED = on_connected"
| "handler DISCONNECTED = on_disconnected"
| "handler READY = on_ready"
| "handler RESUMED = on_resumed"
| "handler GUILD_CREATE = on_guild_create"
| "handler GUILD_UPDATE = on_guild_update"
| "handler GUILD_DELETE = on_guild_delete"
| "handler GUILD_MEMBERS_CHUNK = on_guild_members_chunk"
| "handler (FORWARDED k) = on_forwarded k"

section \<open>The cache mirror\<close>

datatype child_kind = Channels | Emojis | Roles | Members | Presences | VoiceStates

record mirror =
  me :: "user option"
  unavailable_guild_set :: "snowflake set"
  guild_records :: "snowflake \<rightharpoonup> guild"
  children :: "child_kind \<Rightarrow> snowflake \<Rightarrow> snowflake \<rightharpoonup> child"

datatype availability = Available | Unavailable | Absent

text \<open>
  Modelled from the spec: the cache component (\<^verbatim>\<open>self.app.cache\<close>) is not part of the
  source file. A guild is exactly one of available with full data, unavailable, or
  absent, and this is kept consistent with the Unavailable-Guild Set.
\<close>

definition availability_of :: "mirror \<Rightarrow> snowflake \<Rightarrow> availability" where
  "availability_of m g =
     (if g \<in> unavailable_guild_set m then Unavailable
      else if guild_records m g \<noteq> None then Available
      else Absent)"

text \<open>
  Modelled from the spec: \<^verbatim>\<open>set(parentKey, childKey, record)\<close> of the absent cache:
  insert or overwrite; does not affect sibling children. The parent and child keys are
  the ones the record carries.
\<close>

definition set_child :: "child_kind \<Rightarrow> child \<Rightarrow> mirror \<Rightarrow> mirror" where
  "set_child k c m =
     m\<lparr>children := (children m)
         (k := (children m k)
            (child_guild_id c := (children m k (child_guild_id c))(child_id c \<mapsto> c)))\<rparr>"

text \<open>
  Modelled from the spec: \<^verbatim>\<open>clear(parentKey, childKind)\<close> of the absent cache: remove
  all children of that kind under that parent.
\<close>

definition clear_children :: "child_kind \<Rightarrow> snowflake \<Rightarrow> mirror \<Rightarrow> mirror" where
  "clear_children k g m =
     m\<lparr>children := (children m)(k := (children m k)(g := Map.empty))\<rparr>"

text \<open>
  Modelled from the spec: \<^verbatim>\<open>updateGuild(record)\<close> of the absent cache: guild-level
  upsert; the recipes use it as "upsert guild record and mark available", and the
  Unavailable-Guild Set shrinks as guilds become available.
\<close>

definition update_guild :: "guild \<Rightarrow> mirror \<Rightarrow> mirror" where
  "update_guild g m =
     m\<lparr>guild_records := (guild_records m)(guild_id g \<mapsto> g),
       unavailable_guild_set := unavailable_guild_set m - {guild_id g}\<rparr>"

text \<open>
  Modelled from the spec: \<^verbatim>\<open>deleteGuild(key)\<close> of the absent cache: guild-level
  removal, cascading clear across every child kind; afterwards the guild is absent and
  not in the Unavailable-Guild Set.
\<close>

definition delete_guild :: "snowflake \<Rightarrow> mirror \<Rightarrow> mirror" where
  "delete_guild g m =
     m\<lparr>guild_records := (guild_records m)(g := None),
       unavailable_guild_set := unavailable_guild_set m - {g},
       children := (\<lambda>k. (children m k)(g := Map.empty))\<rparr>"

text \<open>
  Modelled from the spec: \<^verbatim>\<open>setAvailability(guildKey, available)\<close> of the absent cache:
  the Unavailable-Guild Set grows when a guild drops out and shrinks when it comes back;
  records and children stay in place.
\<close>

definition set_guild_availability :: "snowflake \<Rightarrow> bool \<Rightarrow> mirror \<Rightarrow> mirror" where
  "set_guild_availability g b m =
     m\<lparr>unavailable_guild_set :=
         (if b then unavailable_guild_set m - {g} else insert g (unavailable_guild_set m))\<rparr>"

text \<open>
  Modelled from the spec: \<^verbatim>\<open>setInitialUnavailableGuilds(keys)\<close> of the absent cache:
  bulk-seed the Unavailable-Guild Set; replaces the set.
\<close>

definition set_initial_unavailable_guilds :: "snowflake list \<Rightarrow> mirror \<Rightarrow> mirror" where
  "set_initial_unavailable_guilds ks m = m\<lparr>unavailable_guild_set := set ks\<rparr>"

text \<open>
  Modelled from the spec: setting the Self-User singleton of the absent cache
  (\<^verbatim>\<open>update_me\<close>).
\<close>

definition update_me :: "user \<Rightarrow> mirror \<Rightarrow> mirror" where
  "update_me u m = m\<lparr>me := Some u\<rparr>"

text \<open>Each method the handlers call, bound to its primitive.\<close>

fun apply_call :: "cache_call \<Rightarrow> mirror \<Rightarrow> mirror" where
  "apply_call (Update_me u) = update_me u"
| "apply_call (Set_initial_unavailable_guilds ks) = set_initial_unavailable_guilds ks"
| "apply_call (Update_guild g) = update_guild g"
| "apply_call (Clear_guild_channels g) = clear_children Channels g"
| "apply_call (Set_guild_channel c) = set_child Channels c"
| "apply_call (Clear_emojis g) = clear_children Emojis g"
| "apply_call (Set_emoji c) = set_child Emojis c"
| "apply_call (Clear_roles g) = clear_children Roles g"
| "apply_call (Set_role c) = set_child Roles c"
| "apply_call (Clear_members g) = clear_children Members g"
| "apply_call (Set_member c) = set_child Members c"
| "apply_call (Clear_presences g) = clear_children Presences g"
| "apply_call (Set_presence c) = set_child Presences c"
| "apply_call (Set_voice_state c) = set_child VoiceStates c"
| "apply_call (Set_guild_availability g b) = set_guild_availability g b"
| "apply_call (Delete_guild g) = delete_guild g"

section \<open>Running a handler\<close>

record app =
  cache :: mirror
  sink :: "event list"

fun perform :: "action \<Rightarrow> app \<Rightarrow> app" where
  "perform (Cache c) s = s\<lparr>cache := apply_call c (cache s)\<rparr>"
| "perform (Dispatch e) s = s\<lparr>sink := sink s @ [e]\<rparr>"

definition run :: "action list \<Rightarrow> app \<Rightarrow> app" where
  "run as s = fold perform as s"

text \<open>
  A handler whose decoder raised has made no call yet: the error propagates and the
  state is the one it started from.
\<close>

definition exec :: "error + action list \<Rightarrow> app \<Rightarrow> error option \<times> app" where
  "exec r s = (case r of Inl e \<Rightarrow> (Some e, s) | Inr as \<Rightarrow> (None, run as s))"

definition cache_calls :: "action list \<Rightarrow> cache_call list" where
  "cache_calls as = concat (map (\<lambda>a. case a of Cache c \<Rightarrow> [c] | Dispatch e \<Rightarrow> []) as)"

definition dispatches :: "action list \<Rightarrow> event list" where
  "dispatches as = concat (map (\<lambda>a. case a of Cache c \<Rightarrow> [] | Dispatch e \<Rightarrow> [e]) as)"

text \<open>
  What the sink sees: each dispatched event, paired with the mirror as it stands at the
  moment of that dispatch.
\<close>

fun observed :: "action list \<Rightarrow> app \<Rightarrow> (event \<times> mirror) list" where
  "observed [] s = []"
| "observed (Cache c # as) s = observed as (perform (Cache c) s)"
| "observed (Dispatch e # as) s = (e, cache s) # observed as (perform (Dispatch e) s)"

text \<open>
  The contents of one collection after storing a batch of children into it one by one,
  each under its own key.
\<close>

definition store_all :: "child list \<Rightarrow> (snowflake \<rightharpoonup> child) \<Rightarrow> (snowflake \<rightharpoonup> child)" where
  "store_all cs f = fold (\<lambda>c f. f(child_id c \<mapsto> c)) cs f"

definition scoped :: "snowflake \<Rightarrow> child list \<Rightarrow> bool" where
  "scoped g cs = list_all (\<lambda>c. child_guild_id c = g) cs"

section \<open>A sample decoder and mirror for concrete runs\<close>

definition sample_ids :: "json \<Rightarrow> snowflake list" where
  "sample_ids j =
     (case j of
        JArr xs \<Rightarrow> concat (map (\<lambda>x. case x of JNum n \<Rightarrow> [nat n] | _ \<Rightarrow> []) xs)
      | _ \<Rightarrow> [])"

definition sample_children :: "snowflake \<Rightarrow> payload \<Rightarrow> string \<Rightarrow> child dict" where
  "sample_children g p k =
     map (\<lambda>i. (i, \<lparr>child_guild_id = g, child_id = i, body = k\<rparr>))
       (sample_ids (dict_get p k (JArr [])))"

definition sample_guild_update :: "payload \<Rightarrow> error + guild_update_event" where
  "sample_guild_update p =
     (case p ''id'' of
        Some (JNum n) \<Rightarrow>
          Inr \<lparr>guild = \<lparr>guild_id = nat n, guild_name = ''g''\<rparr>,
               emojis = sample_children (nat n) p ''emojis'',
               roles = sample_children (nat n) p ''roles''\<rparr>
      | _ \<Rightarrow> Inl (DecodeError ''id''))"

definition sample_guild_create :: "payload \<Rightarrow> error + guild_create_event" where
  "sample_guild_create p =
     (case p ''id'' of
        Some (JNum n) \<Rightarrow>
          Inr \<lparr>guild = \<lparr>guild_id = nat n, guild_name = ''g''\<rparr>,
               emojis = sample_children (nat n) p ''emojis'',
               roles = sample_children (nat n) p ''roles'',
               channels = sample_children (nat n) p ''channels'',
               members = sample_children (nat n) p ''members'',
               presences = sample_children (nat n) p ''presences'',
               voice_states = sample_children (nat n) p ''voice_states''\<rparr>
      | _ \<Rightarrow> Inl (DecodeError ''id''))"

definition sample_ready :: "shard \<Rightarrow> payload \<Rightarrow> error + ready_event" where
  "sample_ready sh p =
     (case p ''user'' of
        Some (JNum n) \<Rightarrow>
          Inr \<lparr>my_user = \<lparr>user_id = nat n, username = ''me''\<rparr>,
               unavailable_guilds =
                 map (\<lambda>i. (i, UnavailableGuild i)) (sample_ids (dict_get p ''guilds'' (JArr [])))\<rparr>
      | _ \<Rightarrow> Inl (DecodeError ''user''))"

definition sample_factory :: entity_factory where
  "sample_factory =
     \<lparr>deserialize_ready_event = sample_ready,
      deserialize_guild_create_event = sample_guild_create,
      deserialize_guild_update_event = sample_guild_update,
      deserialize_guild_unavailable_event =
        (\<lambda>p. case p ''id'' of
               Some (JNum n) \<Rightarrow> Inr \<lparr>unavailable_id = nat n\<rparr>
             | _ \<Rightarrow> Inl (DecodeError ''id'')),
      deserialize_guild_leave_event =
        (\<lambda>p. case p ''id'' of
               Some (JNum n) \<Rightarrow> Inr \<lparr>leave_id = nat n\<rparr>
             | _ \<Rightarrow> Inl (DecodeError ''id'')),
      deserialize_event =
        (\<lambda>k p. case p ''d'' of
               Some (JStr s) \<Rightarrow> Inr s
             | _ \<Rightarrow> Inl (DecodeError ''d''))\<rparr>"

definition empty_mirror :: mirror where
  "empty_mirror =
     \<lparr>me = None, unavailable_guild_set = {}, guild_records = Map.empty,
      children = (\<lambda>k g. Map.empty)\<rparr>"

definition empty_app :: app where
  "empty_app = \<lparr>cache = empty_mirror, sink = []\<rparr>"

section \<open>Member chunks\<close>

text \<open>
  C9. For every member-chunk payload the handler does nothing at all: whatever the
  entity factory is (also one whose decoders all fail), the handler returns without
  error, makes no cache call, dispatches no event, and leaves mirror and sink as they
  were.
\<close>

theorem on_guild_members_chunk_inert:
  "on_guild_members_chunk ef sh p = Inr []
   \<and> exec (on_guild_members_chunk ef sh p) s = (None, s)"
  by (simp add: on_guild_members_chunk_def exec_def run_def)

section \<open>Running lists of calls\<close>

lemma run_Nil [simp]: "run [] s = s"
  by (simp add: run_def)

lemma run_Cons [simp]: "run (a # as) s = run as (perform a s)"
  by (simp add: run_def)

lemma run_append [simp]: "run (as @ bs) s = run bs (run as s)"
  by (simp add: run_def)

lemma run_calls: "run (map Cache cs) s = s\<lparr>cache := fold apply_call cs (cache s)\<rparr>"
  by (induction cs arbitrary: s) simp_all

lemma cache_calls_simps [simp]:
  "cache_calls [] = []"
  "cache_calls (Cache c # as) = c # cache_calls as"
  "cache_calls (Dispatch e # as) = cache_calls as"
  "cache_calls (as @ bs) = cache_calls as @ cache_calls bs"
  by (simp_all add: cache_calls_def)

lemma dispatches_simps [simp]:
  "dispatches [] = []"
  "dispatches (Cache c # as) = dispatches as"
  "dispatches (Dispatch e # as) = e # dispatches as"
  "dispatches (as @ bs) = dispatches as @ dispatches bs"
  by (simp_all add: dispatches_def)

lemma cache_calls_map_Cache [simp]: "cache_calls (map Cache cs) = cs"
  by (induction cs) simp_all

lemma dispatches_map_Cache [simp]: "dispatches (map Cache cs) = []"
  by (induction cs) simp_all

lemma observed_calls_then_dispatch:
  "observed (map Cache cs @ [Dispatch e]) s = [(e, fold apply_call cs (cache s))]"
  by (induction cs arbitrary: s) simp_all

lemma run_calls_then_dispatch:
  "run (map Cache cs @ [Dispatch e]) s =
     \<lparr>cache = fold apply_call cs (cache s), sink = sink s @ [e]\<rparr>"
  by (simp add: run_calls)

lemma on_guild_create_shape:
  "deserialize_guild_create_event ef p = Inr ev \<Longrightarrow>
   on_guild_create ef sh p =
     Inr (map Cache
           ([Update_guild (guild ev), Clear_guild_channels (guild_id (guild ev))]
            @ map Set_guild_channel (dict_values (channels ev))
            @ [Clear_emojis (guild_id (guild ev))]
            @ map Set_emoji (dict_values (emojis ev))
            @ [Clear_roles (guild_id (guild ev))]
            @ map Set_role (dict_values (roles ev))
            @ [Clear_members (guild_id (guild ev))]
            @ map Set_member (dict_values (members ev))
            @ [Clear_presences (guild_id (guild ev))]
            @ map Set_presence (dict_values (presences ev))
            @ map Set_voice_state (dict_values (voice_states ev)))
          @ [Dispatch (GuildCreateEvent ev)])"
  by (simp add: on_guild_create_def comp_def)


lemma on_guild_update_shape:
  "deserialize_guild_update_event ef p = Inr ev \<Longrightarrow>
   on_guild_update ef sh p =
     Inr (map Cache
           ([Update_guild (guild ev), Clear_roles (guild_id (guild ev))]
            @ map Set_role (dict_values (roles ev))
            @ [Clear_emojis (guild_id (guild ev))]
            @ map Set_emoji (dict_values (emojis ev)))
          @ [Dispatch (GuildUpdateEvent ev)])"
  by (simp add: on_guild_update_def comp_def)

section \<open>What the primitives change\<close>

lemma set_child_fields [simp]:
  "me (set_child k c m) = me m"
  "unavailable_guild_set (set_child k c m) = unavailable_guild_set m"
  "guild_records (set_child k c m) = guild_records m"
  by (simp_all add: set_child_def)

lemma children_set_child:
  "children (set_child k c m) k' g =
     (if k' = k \<and> g = child_guild_id c then (children m k g)(child_id c \<mapsto> c)
      else children m k' g)"
  by (simp add: set_child_def)

lemma clear_children_fields [simp]:
  "me (clear_children k g m) = me m"
  "unavailable_guild_set (clear_children k g m) = unavailable_guild_set m"
  "guild_records (clear_children k g m) = guild_records m"
  by (simp_all add: clear_children_def)

lemma children_clear_children [simp]:
  "children (clear_children k g m) k' g' =
     (if k' = k \<and> g' = g then Map.empty else children m k' g')"
  by (simp add: clear_children_def)

lemma update_guild_fields [simp]:
  "me (update_guild g m) = me m"
  "children (update_guild g m) = children m"
  "guild_records (update_guild g m) = (guild_records m)(guild_id g \<mapsto> g)"
  "unavailable_guild_set (update_guild g m) = unavailable_guild_set m - {guild_id g}"
  by (simp_all add: update_guild_def)

lemma fold_set_child_fields [simp]:
  "me (fold (set_child k) cs m) = me m"
  "unavailable_guild_set (fold (set_child k) cs m) = unavailable_guild_set m"
  "guild_records (fold (set_child k) cs m) = guild_records m"
  by (induction cs arbitrary: m) simp_all

lemma store_all_Nil [simp]: "store_all [] f = f"
  by (simp add: store_all_def)

lemma store_all_Cons [simp]: "store_all (c # cs) f = store_all cs (f(child_id c \<mapsto> c))"
  by (simp add: store_all_def)

lemma children_fold_set_child:
  "children (fold (set_child k) cs m) k' g =
     (if k' = k then store_all (filter (\<lambda>c. child_guild_id c = g) cs) (children m k g)
      else children m k' g)"
  by (induction cs arbitrary: m) (simp_all add: children_set_child)

lemma scoped_filter_same: "scoped g cs \<Longrightarrow> filter (\<lambda>c. child_guild_id c = g) cs = cs"
  by (induction cs) (simp_all add: scoped_def)

lemma scoped_filter_other:
  "scoped g cs \<Longrightarrow> g' \<noteq> g \<Longrightarrow> filter (\<lambda>c. child_guild_id c = g') cs = []"
  by (induction cs) (simp_all add: scoped_def)

lemma fold_setters [simp]:
  "fold apply_call (map Set_guild_channel cs) = fold (set_child Channels) cs"
  "fold apply_call (map Set_emoji cs) = fold (set_child Emojis) cs"
  "fold apply_call (map Set_role cs) = fold (set_child Roles) cs"
  "fold apply_call (map Set_member cs) = fold (set_child Members) cs"
  "fold apply_call (map Set_presence cs) = fold (set_child Presences) cs"
  "fold apply_call (map Set_voice_state cs) = fold (set_child VoiceStates) cs"
  by (simp_all add: fold_map comp_def)

lemma store_all_exactly:
  "distinct (map child_id cs) \<Longrightarrow> \<forall>c \<in> set cs. f (child_id c) = None \<Longrightarrow>
   (store_all cs f i = Some c) = ((c \<in> set cs \<and> child_id c = i) \<or> f i = Some c)"
proof (induction cs arbitrary: f)
  case Nil
  then show ?case by simp
next
  case (Cons a cs)
  from Cons.prems have na: "child_id a \<notin> child_id ` set cs"
    and d: "distinct (map child_id cs)"
    and fa: "f (child_id a) = None"
    and fcs: "\<forall>c\<in>set cs. f (child_id c) = None"
    by simp_all
  have ne: "child_id c' \<noteq> child_id a" if "c' \<in> set cs" for c'
    using na that by (metis imageI)
  have "\<forall>c\<in>set cs. (f(child_id a \<mapsto> a)) (child_id c) = None"
    using fcs ne by simp
  with d have "(store_all cs (f(child_id a \<mapsto> a)) i = Some c) =
      ((c \<in> set cs \<and> child_id c = i) \<or> (f(child_id a \<mapsto> a)) i = Some c)"
    by (rule Cons.IH)
  then show ?case using ne fa by auto
qed

section \<open>Guild update\<close>

text \<open>
  C2. For every guild-update payload the handler issues \<open>update_guild\<close> on the decoded
  guild, then \<open>clear_roles\<close> and one \<open>set_role\<close> per decoded role, then
  \<open>clear_emojis\<close> and one \<open>set_emoji\<close> per decoded emoji, and nothing else. In
  the mirror, the channel, member, presence and voice-state collections (of every guild)
  and the Self-User are unchanged, guild records and the Unavailable-Guild Set are
  unchanged away from this guild, and, the decoded roles and emojis being those of this
  guild, its role and emoji collections hold exactly the decoded entries while the
  collections of every other guild are unchanged.
\<close>

theorem on_guild_update_frame:
  assumes dec: "deserialize_guild_update_event ef p = Inr ev"
  shows "cache_calls (case on_guild_update ef sh p of Inl e \<Rightarrow> [] | Inr tr \<Rightarrow> tr) =
           [Update_guild (guild ev), Clear_roles (guild_id (guild ev))]
           @ map Set_role (dict_values (roles ev))
           @ [Clear_emojis (guild_id (guild ev))]
           @ map Set_emoji (dict_values (emojis ev))
         \<and> (let m = cache s; m' = cache (snd (exec (on_guild_update ef sh p) s)) in
              children m' Channels = children m Channels
            \<and> children m' Members = children m Members
            \<and> children m' Presences = children m Presences
            \<and> children m' VoiceStates = children m VoiceStates
            \<and> me m' = me m
            \<and> guild_records m' = (guild_records m)(guild_id (guild ev) \<mapsto> guild ev)
            \<and> unavailable_guild_set m' - {guild_id (guild ev)}
                = unavailable_guild_set m - {guild_id (guild ev)}
            \<and> (scoped (guild_id (guild ev)) (dict_values (roles ev) @ dict_values (emojis ev)) \<longrightarrow>
                 children m' Roles (guild_id (guild ev)) = store_all (dict_values (roles ev)) Map.empty
               \<and> children m' Emojis (guild_id (guild ev)) = store_all (dict_values (emojis ev)) Map.empty
               \<and> (\<forall>g k. g \<noteq> guild_id (guild ev) \<longrightarrow> children m' k g = children m k g)))"
proof -
  let ?G = "guild_id (guild ev)"
  let ?m = "cache s"
  let ?m' = "cache (snd (exec (on_guild_update ef sh p) s))"
  have m': "?m' = fold (set_child Emojis) (dict_values (emojis ev))
                   (clear_children Emojis ?G
                     (fold (set_child Roles) (dict_values (roles ev))
                       (clear_children Roles ?G (update_guild (guild ev) ?m))))"
  proof -
    have "?m' = fold apply_call
                  ([Update_guild (guild ev), Clear_roles ?G]
                   @ map Set_role (dict_values (roles ev))
                   @ [Clear_emojis ?G]
                   @ map Set_emoji (dict_values (emojis ev))) ?m"
      by (simp only: on_guild_update_shape [OF dec] exec_def run_calls_then_dispatch
          sum.case snd_conv app.select_convs)
    then show ?thesis
      by simp
  qed
  have calls: "cache_calls (case on_guild_update ef sh p of Inl e \<Rightarrow> [] | Inr tr \<Rightarrow> tr) =
           [Update_guild (guild ev), Clear_roles ?G]
           @ map Set_role (dict_values (roles ev))
           @ [Clear_emojis ?G]
           @ map Set_emoji (dict_values (emojis ev))"
    by (simp only: on_guild_update_shape [OF dec] sum.case cache_calls_simps
      cache_calls_map_Cache append_Nil2)
  have other: "children ?m' k = children ?m k" if "k \<noteq> Roles" "k \<noteq> Emojis" for k
  proof (rule ext)
    fix g
    show "children ?m' k g = children ?m k g"
      using that by (simp add: m' children_fold_set_child)
  qed
  have fields: "me ?m' = me ?m"
      "guild_records ?m' = (guild_records ?m)(?G \<mapsto> guild ev)"
      "unavailable_guild_set ?m' - {?G} = unavailable_guild_set ?m - {?G}"
    by (simp_all add: m')
  have scoped_part:
    "children ?m' Roles ?G = store_all (dict_values (roles ev)) Map.empty
     \<and> children ?m' Emojis ?G = store_all (dict_values (emojis ev)) Map.empty
     \<and> (\<forall>g k. g \<noteq> ?G \<longrightarrow> children ?m' k g = children ?m k g)"
    if sc: "scoped ?G (dict_values (roles ev) @ dict_values (emojis ev))"
  proof -
    from sc have r: "scoped ?G (dict_values (roles ev))" and e: "scoped ?G (dict_values (emojis ev))"
      by (simp_all add: scoped_def)
    show ?thesis
      by (simp add: m' children_fold_set_child scoped_filter_same [OF r]
          scoped_filter_same [OF e] scoped_filter_other [OF r] scoped_filter_other [OF e])
  qed
  show ?thesis
    unfolding Let_def
    using calls other [of Channels] other [of Members] other [of Presences]
      other [of VoiceStates] fields scoped_part
    by simp
qed


theorem on_guild_update_frame_witness:
  "(let p = [''id'' \<mapsto> JNum 7, ''roles'' \<mapsto> JArr [JNum 2]];
        old = \<lparr>child_guild_id = 7, child_id = 3, body = ''old''\<rparr>;
        s = \<lparr>cache = empty_mirror\<lparr>children := (\<lambda>k g. if g = 7 then [3 \<mapsto> old] else Map.empty)\<rparr>,
             sink = []\<rparr>;
        m' = cache (snd (exec (on_guild_update sample_factory 5 p) s))
    in deserialize_guild_update_event sample_factory p =
         Inr \<lparr>guild = \<lparr>guild_id = 7, guild_name = ''g''\<rparr>, emojis = [],
              roles = [(2, \<lparr>child_guild_id = 7, child_id = 2, body = ''roles''\<rparr>)]\<rparr>
       \<and> children m' Channels 7 3 = Some old
       \<and> children m' VoiceStates 7 3 = Some old
       \<and> children m' Roles 7 3 = None
       \<and> children m' Roles 7 2 = Some \<lparr>child_guild_id = 7, child_id = 2, body = ''roles''\<rparr>
       \<and> children m' Emojis 7 3 = None)"
proof -
  let ?p = "[''id'' \<mapsto> JNum 7, ''roles'' \<mapsto> JArr [JNum 2]]"
  let ?ev = "\<lparr>guild = \<lparr>guild_id = 7, guild_name = ''g''\<rparr>, emojis = [],
              roles = [(2, \<lparr>child_guild_id = 7, child_id = 2, body = ''roles''\<rparr>)]\<rparr>"
  let ?old = "\<lparr>child_guild_id = 7, child_id = 3, body = ''old''\<rparr>"
  let ?s = "\<lparr>cache = empty_mirror\<lparr>children := (\<lambda>k g. if g = 7 then [3 \<mapsto> ?old] else Map.empty)\<rparr>,
             sink = []\<rparr>"
  have dec: "deserialize_guild_update_event sample_factory ?p = Inr ?ev"
    by (simp add: sample_factory_def sample_guild_update_def sample_children_def
        sample_ids_def dict_get_def)
  have sc: "scoped (guild_id (guild ?ev)) (dict_values (roles ?ev) @ dict_values (emojis ?ev))"
    by (simp add: scoped_def dict_values_def)
  show ?thesis
    using on_guild_update_frame [OF dec, of 5 ?s] sc dec
    by (simp add: Let_def empty_mirror_def dict_values_def)
qed


lemma set_guild_availability_fields [simp]:
  "me (set_guild_availability g b m) = me m"
  "children (set_guild_availability g b m) = children m"
  "guild_records (set_guild_availability g b m) = guild_records m"
  "unavailable_guild_set (set_guild_availability g b m) =
     (if b then unavailable_guild_set m - {g} else insert g (unavailable_guild_set m))"
  by (simp_all add: set_guild_availability_def)

lemma delete_guild_fields [simp]:
  "me (delete_guild g m) = me m"
  "children (delete_guild g m) k g' = (if g' = g then Map.empty else children m k g')"
  "guild_records (delete_guild g m) = (guild_records m)(g := None)"
  "unavailable_guild_set (delete_guild g m) = unavailable_guild_set m - {g}"
  by (simp_all add: delete_guild_def)

section \<open>Session ready\<close>

text \<open>
  C7. For every session-ready payload that decodes, the handler calls, in this order,
  \<open>update_me\<close> with the decoded own user, \<open>set_initial_unavailable_guilds\<close> with
  the keys of the decoded unavailable guilds, and then dispatches the ready event. In
  the mirror only the Self-User and the Unavailable-Guild Set change: the former becomes
  the decoded user and the latter is replaced by the decoded keys.
\<close>

theorem on_ready_recipe:
  assumes dec: "deserialize_ready_event ef sh p = Inr ev"
  shows "on_ready ef sh p =
           Inr [Cache (Update_me (my_user ev)),
                Cache (Set_initial_unavailable_guilds (dict_keys (unavailable_guilds ev))),
                Dispatch (ReadyEvent ev)]
         \<and> exec (on_ready ef sh p) s =
             (None,
              \<lparr>cache = (cache s)\<lparr>me := Some (my_user ev),
                                  unavailable_guild_set := set (dict_keys (unavailable_guilds ev))\<rparr>,
               sink = sink s @ [ReadyEvent ev]\<rparr>)"
  using dec
  by (simp add: on_ready_def exec_def update_me_def set_initial_unavailable_guilds_def)

theorem on_ready_recipe_witness:
  "(let p = [''user'' \<mapsto> JNum 9, ''guilds'' \<mapsto> JArr [JNum 3, JNum 4]];
        ev = \<lparr>my_user = \<lparr>user_id = 9, username = ''me''\<rparr>,
              unavailable_guilds = [(3, UnavailableGuild 3), (4, UnavailableGuild 4)]\<rparr>;
        s = \<lparr>cache = empty_mirror\<lparr>unavailable_guild_set := {5}\<rparr>, sink = []\<rparr>
    in deserialize_ready_event sample_factory 2 p = Inr ev
       \<and> exec (on_ready sample_factory 2 p) s =
           (None,
            \<lparr>cache = empty_mirror\<lparr>me := Some \<lparr>user_id = 9, username = ''me''\<rparr>,
                                   unavailable_guild_set := {3, 4}\<rparr>,
             sink = [ReadyEvent ev]\<rparr>))"
proof -
  let ?p = "[''user'' \<mapsto> JNum 9, ''guilds'' \<mapsto> JArr [JNum 3, JNum 4]]"
  let ?ev = "\<lparr>my_user = \<lparr>user_id = 9, username = ''me''\<rparr>,
              unavailable_guilds = [(3, UnavailableGuild 3), (4, UnavailableGuild 4)]\<rparr>"
  let ?s = "\<lparr>cache = empty_mirror\<lparr>unavailable_guild_set := {5}\<rparr>, sink = []\<rparr>"
  have dec: "deserialize_ready_event sample_factory 2 ?p = Inr ?ev"
    by (simp add: sample_factory_def sample_ready_def sample_ids_def dict_get_def)
  show ?thesis
    using on_ready_recipe [OF dec, of ?s, THEN conjunct2] dec
    by (simp add: Let_def dict_keys_def empty_mirror_def)
qed

section \<open>Guild create: the guild record\<close>

text \<open>
  C8. For every guild-create payload that decodes, the first call of the handler is
  \<open>update_guild\<close> on the decoded guild, and the single dispatch, of the guild-create
  event, sees a mirror that holds the decoded guild record and in which the guild is
  available.
\<close>

theorem on_guild_create_marks_available:
  assumes dec: "deserialize_guild_create_event ef p = Inr ev"
  shows "(let tr = (case on_guild_create ef sh p of Inl e \<Rightarrow> [] | Inr tr \<Rightarrow> tr);
              m' = cache (run tr s)
          in on_guild_create ef sh p = Inr tr
             \<and> take 1 tr = [Cache (Update_guild (guild ev))]
             \<and> observed tr s = [(GuildCreateEvent ev, m')]
             \<and> guild_records m' (guild_id (guild ev)) = Some (guild ev)
             \<and> availability_of m' (guild_id (guild ev)) = Available)"
proof -
  let ?G = "guild_id (guild ev)"
  let ?cs = "[Update_guild (guild ev), Clear_guild_channels ?G]
            @ map Set_guild_channel (dict_values (channels ev))
            @ [Clear_emojis ?G]
            @ map Set_emoji (dict_values (emojis ev))
            @ [Clear_roles ?G]
            @ map Set_role (dict_values (roles ev))
            @ [Clear_members ?G]
            @ map Set_member (dict_values (members ev))
            @ [Clear_presences ?G]
            @ map Set_presence (dict_values (presences ev))
            @ map Set_voice_state (dict_values (voice_states ev))"
  let ?tr = "map Cache ?cs @ [Dispatch (GuildCreateEvent ev)]"
  let ?m' = "fold apply_call ?cs (cache s)"
  have shape: "on_guild_create ef sh p = Inr ?tr"
    by (rule on_guild_create_shape [OF dec])
  have final: "cache (run ?tr s) = ?m'"
    by (simp only: run_calls_then_dispatch app.select_convs)
  have obs: "observed ?tr s = [(GuildCreateEvent ev, ?m')]"
    by (rule observed_calls_then_dispatch)
  have first: "take 1 ?tr = [Cache (Update_guild (guild ev))]"
    by simp
  have rec: "guild_records ?m' = (guild_records (cache s))(?G \<mapsto> guild ev)"
    by simp
  have una: "unavailable_guild_set ?m' = unavailable_guild_set (cache s) - {?G}"
    by simp
  have av: "availability_of ?m' ?G = Available"
    by (simp only: availability_of_def rec una) simp
  show ?thesis
    unfolding Let_def shape sum.case final obs
    using first rec av by simp
qed

theorem on_guild_create_marks_available_witness:
  "(let p = [''id'' \<mapsto> JNum 7, ''channels'' \<mapsto> JArr [JNum 3]];
        g = \<lparr>guild_id = 7, guild_name = ''g''\<rparr>;
        ev = \<lparr>guild = g, emojis = [], roles = [],
              channels = [(3, \<lparr>child_guild_id = 7, child_id = 3, body = ''channels''\<rparr>)],
              members = [], presences = [], voice_states = []\<rparr>;
        s = \<lparr>cache = empty_mirror\<lparr>unavailable_guild_set := {7}\<rparr>, sink = []\<rparr>;
        tr = (case on_guild_create sample_factory 2 p of Inl e \<Rightarrow> [] | Inr tr \<Rightarrow> tr)
    in deserialize_guild_create_event sample_factory p = Inr ev
       \<and> availability_of (cache s) 7 = Unavailable
       \<and> map fst (observed tr s) = [GuildCreateEvent ev]
       \<and> guild_records (cache (run tr s)) 7 = Some g
       \<and> availability_of (cache (run tr s)) 7 = Available)"
proof -
  let ?p = "[''id'' \<mapsto> JNum 7, ''channels'' \<mapsto> JArr [JNum 3]]"
  let ?ev = "\<lparr>guild = \<lparr>guild_id = 7, guild_name = ''g''\<rparr>, emojis = [], roles = [],
              channels = [(3, \<lparr>child_guild_id = 7, child_id = 3, body = ''channels''\<rparr>)],
              members = [], presences = [], voice_states = []\<rparr>"
  let ?s = "\<lparr>cache = empty_mirror\<lparr>unavailable_guild_set := {7}\<rparr>, sink = []\<rparr>"
  have dec: "deserialize_guild_create_event sample_factory ?p = Inr ?ev"
    by (simp add: sample_factory_def sample_guild_create_def sample_children_def
        sample_ids_def dict_get_def)
  have before: "availability_of (cache ?s) 7 = Unavailable"
    by (simp add: availability_of_def empty_mirror_def)
  show ?thesis
    using on_guild_create_marks_available [OF dec, of 2 ?s] dec before
    by (simp add: Let_def)
qed



section \<open>Guild delete\<close>

lemma on_guild_delete_unavailable_shape:
  "truthy (dict_get p ''unavailable'' (JBool False)) \<Longrightarrow>
   deserialize_guild_unavailable_event ef p = Inr u \<Longrightarrow>
   on_guild_delete ef sh p =
     Inr (map Cache [Set_guild_availability (unavailable_id u) False]
          @ [Dispatch (GuildUnavailableEvent u)])"
  by (simp add: on_guild_delete_def)

lemma on_guild_delete_leave_shape:
  "\<not> truthy (dict_get p ''unavailable'' (JBool False)) \<Longrightarrow>
   deserialize_guild_leave_event ef p = Inr l \<Longrightarrow>
   on_guild_delete ef sh p =
     Inr (map Cache [Delete_guild (leave_id l)] @ [Dispatch (GuildLeaveEvent l)])"
  by (simp add: on_guild_delete_def)

text \<open>
  C3. For every guild-delete payload the handler takes one of two branches, chosen by
  the truth value of the payload's \<open>unavailable\<close> field. When it is set and the
  unavailable event decodes, the only cache call is
  \<open>set_guild_availability(id, False)\<close>: the guild becomes unavailable, every record
  and every child collection stays as it was, and the unavailable event is dispatched.
  When it is not set and the leave event decodes, the only cache call is
  \<open>delete_guild(id)\<close>: the guild is absent afterwards, each of its six child
  collections is empty, other guilds keep their children, and the leave event is
  dispatched.
\<close>

theorem on_guild_delete_branches:
  "(truthy (dict_get p ''unavailable'' (JBool False))
      \<and> deserialize_guild_unavailable_event ef p = Inr u \<longrightarrow>
      on_guild_delete ef sh p =
        Inr [Cache (Set_guild_availability (unavailable_id u) False),
             Dispatch (GuildUnavailableEvent u)]
      \<and> exec (on_guild_delete ef sh p) s =
          (None,
           \<lparr>cache = (cache s)\<lparr>unavailable_guild_set :=
                                 insert (unavailable_id u) (unavailable_guild_set (cache s))\<rparr>,
            sink = sink s @ [GuildUnavailableEvent u]\<rparr>)
      \<and> availability_of (cache (snd (exec (on_guild_delete ef sh p) s))) (unavailable_id u)
          = Unavailable)
   \<and> (\<not> truthy (dict_get p ''unavailable'' (JBool False))
      \<and> deserialize_guild_leave_event ef p = Inr l \<longrightarrow>
      on_guild_delete ef sh p =
        Inr [Cache (Delete_guild (leave_id l)), Dispatch (GuildLeaveEvent l)]
      \<and> (let m' = cache (snd (exec (on_guild_delete ef sh p) s)) in
            (\<forall>k. children m' k (leave_id l) = Map.empty)
          \<and> guild_records m' (leave_id l) = None
          \<and> availability_of m' (leave_id l) = Absent
          \<and> (\<forall>k g. g \<noteq> leave_id l \<longrightarrow> children m' k g = children (cache s) k g)
          \<and> me m' = me (cache s))
      \<and> sink (snd (exec (on_guild_delete ef sh p) s)) = sink s @ [GuildLeaveEvent l])"
proof (intro conjI impI)
  assume a: "truthy (dict_get p ''unavailable'' (JBool False))
      \<and> deserialize_guild_unavailable_event ef p = Inr u"
  then show "on_guild_delete ef sh p =
        Inr [Cache (Set_guild_availability (unavailable_id u) False),
             Dispatch (GuildUnavailableEvent u)]"
    by (simp add: on_guild_delete_def)
  from a show "exec (on_guild_delete ef sh p) s =
          (None,
           \<lparr>cache = (cache s)\<lparr>unavailable_guild_set :=
                                 insert (unavailable_id u) (unavailable_guild_set (cache s))\<rparr>,
            sink = sink s @ [GuildUnavailableEvent u]\<rparr>)"
    by (simp add: on_guild_delete_def exec_def set_guild_availability_def)
  from a show "availability_of (cache (snd (exec (on_guild_delete ef sh p) s))) (unavailable_id u)
          = Unavailable"
    by (simp add: on_guild_delete_def exec_def availability_of_def)
next
  assume a: "\<not> truthy (dict_get p ''unavailable'' (JBool False))
      \<and> deserialize_guild_leave_event ef p = Inr l"
  then show "on_guild_delete ef sh p =
        Inr [Cache (Delete_guild (leave_id l)), Dispatch (GuildLeaveEvent l)]"
    by (simp add: on_guild_delete_def)
  from a have m': "cache (snd (exec (on_guild_delete ef sh p) s)) = delete_guild (leave_id l) (cache s)"
    by (simp add: on_guild_delete_def exec_def)
  show "let m' = cache (snd (exec (on_guild_delete ef sh p) s)) in
            (\<forall>k. children m' k (leave_id l) = Map.empty)
          \<and> guild_records m' (leave_id l) = None
          \<and> availability_of m' (leave_id l) = Absent
          \<and> (\<forall>k g. g \<noteq> leave_id l \<longrightarrow> children m' k g = children (cache s) k g)
          \<and> me m' = me (cache s)"
    unfolding Let_def m' by (simp add: availability_of_def)
  from a show "sink (snd (exec (on_guild_delete ef sh p) s)) = sink s @ [GuildLeaveEvent l]"
    by (simp add: on_guild_delete_def exec_def)
qed

theorem on_guild_delete_branches_witness:
  "(let gone = [''id'' \<mapsto> JNum 7, ''unavailable'' \<mapsto> JBool True];
        left = [''id'' \<mapsto> JNum 7, ''unavailable'' \<mapsto> JBool False];
        c = \<lparr>child_guild_id = 7, child_id = 3, body = ''channel''\<rparr>;
        s = \<lparr>cache = empty_mirror
                 \<lparr>guild_records := [7 \<mapsto> \<lparr>guild_id = 7, guild_name = ''g''\<rparr>],
                  children := (\<lambda>k g. if g = 7 then [3 \<mapsto> c] else Map.empty)\<rparr>,
             sink = []\<rparr>;
        s1 = snd (exec (on_guild_delete sample_factory 2 gone) s);
        s2 = snd (exec (on_guild_delete sample_factory 2 left) s)
    in truthy (dict_get gone ''unavailable'' (JBool False))
       \<and> deserialize_guild_unavailable_event sample_factory gone = Inr \<lparr>unavailable_id = 7\<rparr>
       \<and> children (cache s1) Channels 7 3 = Some c
       \<and> availability_of (cache s1) 7 = Unavailable
       \<and> sink s1 = [GuildUnavailableEvent \<lparr>unavailable_id = 7\<rparr>]
       \<and> \<not> truthy (dict_get left ''unavailable'' (JBool False))
       \<and> deserialize_guild_leave_event sample_factory left = Inr \<lparr>leave_id = 7\<rparr>
       \<and> children (cache s2) Channels 7 3 = None
       \<and> availability_of (cache s2) 7 = Absent
       \<and> sink s2 = [GuildLeaveEvent \<lparr>leave_id = 7\<rparr>])"
proof -
  let ?gone = "[''id'' \<mapsto> JNum 7, ''unavailable'' \<mapsto> JBool True]"
  let ?left = "[''id'' \<mapsto> JNum 7, ''unavailable'' \<mapsto> JBool False]"
  let ?c = "\<lparr>child_guild_id = 7, child_id = 3, body = ''channel''\<rparr>"
  let ?s = "\<lparr>cache = empty_mirror
                 \<lparr>guild_records := [7 \<mapsto> \<lparr>guild_id = 7, guild_name = ''g''\<rparr>],
                  children := (\<lambda>k g. if g = 7 then [3 \<mapsto> ?c] else Map.empty)\<rparr>,
             sink = []\<rparr>"
  have t1: "truthy (dict_get ?gone ''unavailable'' (JBool False))"
    by (simp add: dict_get_def)
  have d1: "deserialize_guild_unavailable_event sample_factory ?gone = Inr \<lparr>unavailable_id = 7\<rparr>"
    by (simp add: sample_factory_def)
  have t2: "\<not> truthy (dict_get ?left ''unavailable'' (JBool False))"
    by (simp add: dict_get_def)
  have d2: "deserialize_guild_leave_event sample_factory ?left = Inr \<lparr>leave_id = 7\<rparr>"
    by (simp add: sample_factory_def)
  let ?s1 = "snd (exec (on_guild_delete sample_factory 2 ?gone) ?s)"
  let ?s2 = "snd (exec (on_guild_delete sample_factory 2 ?left) ?s)"
  note u = on_guild_delete_branches [of ?gone sample_factory "\<lparr>unavailable_id = 7\<rparr>" 2 ?s,
      THEN conjunct1, rule_format, OF conjI [OF t1 d1]]
  note l = on_guild_delete_branches [of ?left sample_factory _ 2 ?s "\<lparr>leave_id = 7\<rparr>",
      THEN conjunct2, rule_format, OF conjI [OF t2 d2]]
  have s1: "?s1 =
           \<lparr>cache = (cache ?s)\<lparr>unavailable_guild_set := insert 7 (unavailable_guild_set (cache ?s))\<rparr>,
            sink = sink ?s @ [GuildUnavailableEvent \<lparr>unavailable_id = 7\<rparr>]\<rparr>"
    using u [THEN conjunct2, THEN conjunct1] by simp
  have c1: "children (cache ?s1) Channels 7 3 = Some ?c"
    by (subst s1) (simp add: empty_mirror_def)
  have a1: "availability_of (cache ?s1) 7 = Unavailable"
    using u [THEN conjunct2, THEN conjunct2] by simp
  have k1: "sink ?s1 = [GuildUnavailableEvent \<lparr>unavailable_id = 7\<rparr>]"
    by (subst s1) simp
  have c2: "children (cache ?s2) Channels 7 3 = None"
    using l [THEN conjunct2, THEN conjunct1] by (simp add: Let_def)
  have a2: "availability_of (cache ?s2) 7 = Absent"
    using l [THEN conjunct2, THEN conjunct1] by (simp add: Let_def)
  have k2: "sink ?s2 = [GuildLeaveEvent \<lparr>leave_id = 7\<rparr>]"
    using l [THEN conjunct2, THEN conjunct2] by simp
  show ?thesis
    unfolding Let_def by (intro conjI t1 d1 c1 a1 k1 t2 d2 c2 a2 k2)
qed

text \<open>
  C10. When the payload has no \<open>unavailable\<close> field the handler is the leave branch:
  it decodes the leave event, calls \<open>delete_guild\<close> on its identity and dispatches
  the leave event, so the guild is absent afterwards; and it returns what it returns on
  the same payload with \<open>unavailable\<close> set to false, whenever the leave decoder does
  not tell the two payloads apart.
\<close>

theorem on_guild_delete_flag_absent:
  assumes absent: "p ''unavailable'' = None"
  shows "on_guild_delete ef sh p =
           (case deserialize_guild_leave_event ef p of
              Inl e \<Rightarrow> Inl e
            | Inr l \<Rightarrow> Inr [Cache (Delete_guild (leave_id l)), Dispatch (GuildLeaveEvent l)])
         \<and> (deserialize_guild_leave_event ef p = Inr l \<longrightarrow>
              availability_of (cache (snd (exec (on_guild_delete ef sh p) s))) (leave_id l) = Absent
            \<and> sink (snd (exec (on_guild_delete ef sh p) s)) = sink s @ [GuildLeaveEvent l])
         \<and> (deserialize_guild_leave_event ef (p(''unavailable'' \<mapsto> JBool False))
              = deserialize_guild_leave_event ef p \<longrightarrow>
              on_guild_delete ef sh (p(''unavailable'' \<mapsto> JBool False)) = on_guild_delete ef sh p)"
proof -
  from absent have falsy: "\<not> truthy (dict_get p ''unavailable'' (JBool False))"
    by (simp add: dict_get_def)
  have falsy': "\<not> truthy (dict_get (p(''unavailable'' \<mapsto> JBool False)) ''unavailable'' (JBool False))"
    by (simp add: dict_get_def)
  show ?thesis
    using falsy falsy'
    by (simp add: on_guild_delete_def exec_def availability_of_def)
qed

theorem on_guild_delete_flag_absent_witness:
  "(let p = [''id'' \<mapsto> JNum 7];
        s = \<lparr>cache = empty_mirror
                 \<lparr>guild_records := [7 \<mapsto> \<lparr>guild_id = 7, guild_name = ''g''\<rparr>]\<rparr>,
             sink = []\<rparr>
    in p ''unavailable'' = None
       \<and> deserialize_guild_leave_event sample_factory p = Inr \<lparr>leave_id = 7\<rparr>
       \<and> on_guild_delete sample_factory 2 p =
           Inr [Cache (Delete_guild 7), Dispatch (GuildLeaveEvent \<lparr>leave_id = 7\<rparr>)]
       \<and> availability_of (cache s) 7 = Available
       \<and> availability_of (cache (snd (exec (on_guild_delete sample_factory 2 p) s))) 7 = Absent
       \<and> on_guild_delete sample_factory 2 (p(''unavailable'' \<mapsto> JBool False)) =
           on_guild_delete sample_factory 2 p)"
proof -
  let ?p = "[''id'' \<mapsto> JNum 7]"
  let ?s = "\<lparr>cache = empty_mirror
                 \<lparr>guild_records := [7 \<mapsto> \<lparr>guild_id = 7, guild_name = ''g''\<rparr>]\<rparr>,
             sink = []\<rparr>"
  have absent: "?p ''unavailable'' = None"
    by simp
  have dec: "deserialize_guild_leave_event sample_factory ?p = Inr \<lparr>leave_id = 7\<rparr>"
    by (simp add: sample_factory_def)
  have same: "deserialize_guild_leave_event sample_factory (?p(''unavailable'' \<mapsto> JBool False))
      = deserialize_guild_leave_event sample_factory ?p"
    by (simp add: sample_factory_def)
  have before: "availability_of (cache ?s) 7 = Available"
    by (simp add: availability_of_def empty_mirror_def)
  note r = on_guild_delete_flag_absent [of ?p sample_factory 2 "\<lparr>leave_id = 7\<rparr>" ?s, OF absent]
  have r1: "on_guild_delete sample_factory 2 ?p =
           Inr [Cache (Delete_guild 7), Dispatch (GuildLeaveEvent \<lparr>leave_id = 7\<rparr>)]"
    using r [THEN conjunct1] by (simp add: dec)
  have r2: "availability_of (cache (snd (exec (on_guild_delete sample_factory 2 ?p) ?s))) 7 = Absent"
    using r [THEN conjunct2, THEN conjunct1, rule_format, OF dec, THEN conjunct1] by simp
  have r3: "on_guild_delete sample_factory 2 (?p(''unavailable'' \<mapsto> JBool False)) =
           on_guild_delete sample_factory 2 ?p"
    using r [THEN conjunct2, THEN conjunct2] same by blast
  show ?thesis
    unfolding Let_def by (intro conjI absent dec r1 before r2 r3)
qed


section \<open>Dispatch comes last\<close>

lemma on_ready_shape:
  "deserialize_ready_event ef sh p = Inr ev \<Longrightarrow>
   on_ready ef sh p =
     Inr (map Cache [Update_me (my_user ev),
                     Set_initial_unavailable_guilds (dict_keys (unavailable_guilds ev))]
          @ [Dispatch (ReadyEvent ev)])"
  by (simp add: on_ready_def)

lemma mutating_handler_shape:
  assumes k: "k \<in> {READY, GUILD_CREATE, GUILD_UPDATE, GUILD_DELETE}"
    and ok: "handler k ef sh p = Inr tr"
  shows "\<exists>cs e. tr = map Cache cs @ [Dispatch e]"
proof -
  consider "k = READY" | "k = GUILD_CREATE" | "k = GUILD_UPDATE" | "k = GUILD_DELETE"
    using k by auto
  then show ?thesis
  proof cases
    case 1
    with ok obtain ev where "deserialize_ready_event ef sh p = Inr ev"
      by (cases "deserialize_ready_event ef sh p") (simp_all add: on_ready_def)
    from on_ready_shape [OF this, of] ok 1 show ?thesis
      by (metis handler.simps(3) sum.inject(2))
  next
    case 2
    with ok obtain ev where "deserialize_guild_create_event ef p = Inr ev"
      by (cases "deserialize_guild_create_event ef p") (simp_all add: on_guild_create_def)
    from on_guild_create_shape [OF this, of sh] ok 2 show ?thesis
      by (metis handler.simps(5) sum.inject(2))
  next
    case 3
    with ok obtain ev where "deserialize_guild_update_event ef p = Inr ev"
      by (cases "deserialize_guild_update_event ef p") (simp_all add: on_guild_update_def)
    from on_guild_update_shape [OF this, of sh] ok 3 show ?thesis
      by (metis handler.simps(6) sum.inject(2))
  next
    case 4
    show ?thesis
    proof (cases "truthy (dict_get p ''unavailable'' (JBool False))")
      case True
      with ok 4 obtain u where "deserialize_guild_unavailable_event ef p = Inr u"
        by (cases "deserialize_guild_unavailable_event ef p") (simp_all add: on_guild_delete_def)
      from on_guild_delete_unavailable_shape [OF True this, of sh] ok 4 show ?thesis
        by (metis handler.simps(7) sum.inject(2))
    next
      case False
      with ok 4 obtain l where "deserialize_guild_leave_event ef p = Inr l"
        by (cases "deserialize_guild_leave_event ef p") (simp_all add: on_guild_delete_def)
      from on_guild_delete_leave_shape [OF False this, of sh] ok 4 show ?thesis
        by (metis handler.simps(7) sum.inject(2))
    qed
  qed
qed

text \<open>
  C6. For session-ready, guild-create, guild-update and guild-delete, a handler that
  returns has made all its cache calls first and exactly one dispatch last; the mirror
  the sink sees at that dispatch is the mirror the handler leaves behind.
\<close>

theorem dispatch_after_mutations:
  assumes k: "k \<in> {READY, GUILD_CREATE, GUILD_UPDATE, GUILD_DELETE}"
    and ok: "handler k ef sh p = Inr tr"
  shows "tr = map Cache (cache_calls tr) @ map Dispatch (dispatches tr)
         \<and> length (dispatches tr) = 1
         \<and> observed tr s = map (\<lambda>e. (e, cache (run tr s))) (dispatches tr)"
proof -
  from mutating_handler_shape [OF k ok]
  obtain cs e where tr: "tr = map Cache cs @ [Dispatch e]"
    by blast
  have "cache (run tr s) = fold apply_call cs (cache s)"
    unfolding tr by (simp only: run_calls_then_dispatch app.select_convs)
  moreover have "observed tr s = [(e, fold apply_call cs (cache s))]"
    unfolding tr by (rule observed_calls_then_dispatch)
  moreover have "cache_calls tr = cs" "dispatches tr = [e]"
    unfolding tr by simp_all
  ultimately show ?thesis
    using tr by simp
qed

theorem dispatch_after_mutations_witness:
  "(let p = [''id'' \<mapsto> JNum 7, ''roles'' \<mapsto> JArr [JNum 3]];
        g = \<lparr>guild_id = 7, guild_name = ''g''\<rparr>;
        r = \<lparr>child_guild_id = 7, child_id = 3, body = ''roles''\<rparr>;
        ev = \<lparr>guild = g, emojis = [], roles = [(3, r)]\<rparr>;
        tr = [Cache (Update_guild g), Cache (Clear_roles 7), Cache (Set_role r),
              Cache (Clear_emojis 7), Dispatch (GuildUpdateEvent ev)]
    in GUILD_UPDATE \<in> {READY, GUILD_CREATE, GUILD_UPDATE, GUILD_DELETE}
       \<and> handler GUILD_UPDATE sample_factory 2 p = Inr tr
       \<and> dispatches tr = [GuildUpdateEvent ev]
       \<and> observed tr empty_app = [(GuildUpdateEvent ev, cache (run tr empty_app))]
       \<and> children (cache (run tr empty_app)) Roles 7 3 = Some r)"
proof -
  let ?p = "[''id'' \<mapsto> JNum 7, ''roles'' \<mapsto> JArr [JNum 3]]"
  let ?g = "\<lparr>guild_id = 7, guild_name = ''g''\<rparr>"
  let ?r = "\<lparr>child_guild_id = 7, child_id = 3, body = ''roles''\<rparr>"
  let ?ev = "\<lparr>guild = ?g, emojis = [], roles = [(3, ?r)]\<rparr>"
  let ?tr = "[Cache (Update_guild ?g), Cache (Clear_roles 7), Cache (Set_role ?r),
              Cache (Clear_emojis 7), Dispatch (GuildUpdateEvent ?ev)]"
  have k: "GUILD_UPDATE \<in> {READY, GUILD_CREATE, GUILD_UPDATE, GUILD_DELETE}"
    by simp
  have ok: "handler GUILD_UPDATE sample_factory 2 ?p = Inr ?tr"
    by (simp add: on_guild_update_def sample_factory_def sample_guild_update_def
        sample_children_def sample_ids_def dict_get_def dict_values_def)
  have d: "dispatches ?tr = [GuildUpdateEvent ?ev]"
    by simp
  have obs: "observed ?tr empty_app = [(GuildUpdateEvent ?ev, cache (run ?tr empty_app))]"
    using dispatch_after_mutations [OF k ok, of empty_app, THEN conjunct2, THEN conjunct2]
    by (simp only: d list.map)
  have r: "children (cache (run ?tr empty_app)) Roles 7 3 = Some ?r"
    by (simp add: children_set_child)
  show ?thesis
    unfolding Let_def by (intro conjI k ok d obs r)
qed

section \<open>Decode failures\<close>

text \<open>
  C5. Whichever decoder a handler calls, if it fails the handler fails with the same
  error; and a handler that fails has made no cache call and no dispatch, so mirror and
  sink are the ones it started from and the next payload is handled exactly as it would
  have been without the failed one.
\<close>

theorem decode_failure_isolated:
  "(deserialize_ready_event ef sh p = Inl e \<longrightarrow> handler READY ef sh p = Inl e)
   \<and> (deserialize_guild_create_event ef p = Inl e \<longrightarrow> handler GUILD_CREATE ef sh p = Inl e)
   \<and> (deserialize_guild_update_event ef p = Inl e \<longrightarrow> handler GUILD_UPDATE ef sh p = Inl e)
   \<and> (truthy (dict_get p ''unavailable'' (JBool False))
        \<and> deserialize_guild_unavailable_event ef p = Inl e \<longrightarrow>
        handler GUILD_DELETE ef sh p = Inl e)
   \<and> (\<not> truthy (dict_get p ''unavailable'' (JBool False))
        \<and> deserialize_guild_leave_event ef p = Inl e \<longrightarrow>
        handler GUILD_DELETE ef sh p = Inl e)
   \<and> (deserialize_event ef f p = Inl e \<longrightarrow> handler (FORWARDED f) ef sh p = Inl e)
   \<and> (handler k ef sh p = Inl e \<longrightarrow>
        exec (handler k ef sh p) s = (Some e, s)
        \<and> exec (handler k' ef sh' p') (snd (exec (handler k ef sh p) s))
            = exec (handler k' ef sh' p') s)"
  by (simp add: on_ready_def on_guild_create_def on_guild_update_def on_guild_delete_def
      on_forwarded_def exec_def)

theorem decode_failure_isolated_witness:
  "(let bad = Map.empty;
        flagged = [''unavailable'' \<mapsto> JBool True];
        good = [''d'' \<mapsto> JStr ''m''];
        s = \<lparr>cache = empty_mirror\<lparr>unavailable_guild_set := {5}\<rparr>, sink = []\<rparr>
    in handler READY sample_factory 2 bad = Inl (DecodeError ''user'')
       \<and> handler GUILD_CREATE sample_factory 2 bad = Inl (DecodeError ''id'')
       \<and> handler GUILD_UPDATE sample_factory 2 bad = Inl (DecodeError ''id'')
       \<and> handler GUILD_DELETE sample_factory 2 flagged = Inl (DecodeError ''id'')
       \<and> handler GUILD_DELETE sample_factory 2 bad = Inl (DecodeError ''id'')
       \<and> handler (FORWARDED Message_create) sample_factory 2 bad = Inl (DecodeError ''d'')
       \<and> exec (handler GUILD_CREATE sample_factory 2 bad) s = (Some (DecodeError ''id''), s)
       \<and> exec (handler (FORWARDED Message_create) sample_factory 2 good)
            (snd (exec (handler GUILD_CREATE sample_factory 2 bad) s))
           = (None, s\<lparr>sink := [ForwardedEvent Message_create ''m'']\<rparr>))"
proof -
  let ?bad = "Map.empty :: payload"
  let ?flagged = "[''unavailable'' \<mapsto> JBool True]"
  let ?good = "[''d'' \<mapsto> JStr ''m'']"
  let ?s = "\<lparr>cache = empty_mirror\<lparr>unavailable_guild_set := {5}\<rparr>, sink = []\<rparr>"
  let ?id = "DecodeError ''id''"
  note t = decode_failure_isolated
  have d1: "deserialize_ready_event sample_factory 2 ?bad = Inl (DecodeError ''user'')"
    by (simp add: sample_factory_def sample_ready_def)
  have d2: "deserialize_guild_create_event sample_factory ?bad = Inl ?id"
    by (simp add: sample_factory_def sample_guild_create_def)
  have d3: "deserialize_guild_update_event sample_factory ?bad = Inl ?id"
    by (simp add: sample_factory_def sample_guild_update_def)
  have d4: "truthy (dict_get ?flagged ''unavailable'' (JBool False))
      \<and> deserialize_guild_unavailable_event sample_factory ?flagged = Inl ?id"
    by (simp add: sample_factory_def dict_get_def)
  have d5: "\<not> truthy (dict_get ?bad ''unavailable'' (JBool False))
      \<and> deserialize_guild_leave_event sample_factory ?bad = Inl ?id"
    by (simp add: sample_factory_def dict_get_def)
  have d6: "deserialize_event sample_factory Message_create ?bad = Inl (DecodeError ''d'')"
    by (simp add: sample_factory_def)
  have h1: "handler READY sample_factory 2 ?bad = Inl (DecodeError ''user'')"
    using t [of sample_factory 2 ?bad "DecodeError ''user''"] d1 by blast
  have h2: "handler GUILD_CREATE sample_factory 2 ?bad = Inl ?id"
    using t [of sample_factory 2 ?bad ?id] d2 by blast
  have h3: "handler GUILD_UPDATE sample_factory 2 ?bad = Inl ?id"
    using t [of sample_factory 2 ?bad ?id] d3 by blast
  have h4: "handler GUILD_DELETE sample_factory 2 ?flagged = Inl ?id"
    using t [of sample_factory 2 ?flagged ?id] d4 by blast
  have h5: "handler GUILD_DELETE sample_factory 2 ?bad = Inl ?id"
    using t [of sample_factory 2 ?bad ?id] d5 by blast
  have h6: "handler (FORWARDED Message_create) sample_factory 2 ?bad = Inl (DecodeError ''d'')"
    using t [of sample_factory 2 ?bad "DecodeError ''d''" Message_create] d6 by blast
  note iso = t [of sample_factory 2 ?bad ?id _ GUILD_CREATE ?s "FORWARDED Message_create" 2 ?good,
      THEN conjunct2, THEN conjunct2, THEN conjunct2, THEN conjunct2, THEN conjunct2,
      THEN conjunct2, rule_format, OF h2]
  have e1: "exec (handler GUILD_CREATE sample_factory 2 ?bad) ?s = (Some ?id, ?s)"
    by (rule iso [THEN conjunct1])
  have next_ok: "exec (handler (FORWARDED Message_create) sample_factory 2 ?good) ?s
      = (None, ?s\<lparr>sink := [ForwardedEvent Message_create ''m'']\<rparr>)"
    by (simp add: on_forwarded_def sample_factory_def exec_def)
  have e2: "exec (handler (FORWARDED Message_create) sample_factory 2 ?good)
            (snd (exec (handler GUILD_CREATE sample_factory 2 ?bad) ?s))
           = (None, ?s\<lparr>sink := [ForwardedEvent Message_create ''m'']\<rparr>)"
    by (simp only: iso [THEN conjunct2] next_ok)
  show ?thesis
    unfolding Let_def by (intro conjI h1 h2 h3 h4 h5 h6 e1 e2)
qed


section \<open>Handlers that only forward\<close>

text \<open>
  C4, as stated: every per-child create, update or delete handler applies exactly one
  mirror primitive. It fails on the code: \<open>on_channel_create\<close> on a payload that
  decodes makes no cache call, and the mirror is as it was.
\<close>

theorem per_child_single_primitive_counterexample:
  "deserialize_event sample_factory Channel_create [''d'' \<mapsto> JStr ''c''] = Inr ''c''
   \<and> length (cache_calls
         (case handler (FORWARDED Channel_create) sample_factory 2 [''d'' \<mapsto> JStr ''c''] of
            Inl e \<Rightarrow> [] | Inr tr \<Rightarrow> tr)) \<noteq> 1
   \<and> cache (snd (exec (handler (FORWARDED Channel_create) sample_factory 2
                          [''d'' \<mapsto> JStr ''c'']) empty_app))
       = cache empty_app"
  by (simp add: on_forwarded_def sample_factory_def exec_def)

text \<open>
  C4, amended. For every per-child create, update or delete payload (and every other
  delta kind) that decodes, the handler does one thing: it dispatches the decoded
  event. It makes no cache call, so the mirror is unchanged and the sink gains exactly
  that event.
\<close>

theorem per_child_handlers_forward_only:
  assumes dec: "deserialize_event ef k p = Inr d"
  shows "handler (FORWARDED k) ef sh p = Inr [Dispatch (ForwardedEvent k d)]
         \<and> cache_calls (case handler (FORWARDED k) ef sh p of Inl e \<Rightarrow> [] | Inr tr \<Rightarrow> tr) = []
         \<and> exec (handler (FORWARDED k) ef sh p) s
             = (None, s\<lparr>sink := sink s @ [ForwardedEvent k d]\<rparr>)"
  using dec by (simp add: on_forwarded_def exec_def)

theorem per_child_handlers_forward_only_witness:
  "(let p = [''d'' \<mapsto> JStr ''r''];
        s = \<lparr>cache = empty_mirror\<lparr>unavailable_guild_set := {5}\<rparr>, sink = []\<rparr>
    in deserialize_event sample_factory Guild_role_delete p = Inr ''r''
       \<and> handler (FORWARDED Guild_role_delete) sample_factory 2 p
           = Inr [Dispatch (ForwardedEvent Guild_role_delete ''r'')]
       \<and> exec (handler (FORWARDED Guild_role_delete) sample_factory 2 p) s
           = (None, s\<lparr>sink := [ForwardedEvent Guild_role_delete ''r'']\<rparr>))"
proof -
  let ?p = "[''d'' \<mapsto> JStr ''r'']"
  let ?s = "\<lparr>cache = empty_mirror\<lparr>unavailable_guild_set := {5}\<rparr>, sink = []\<rparr>"
  have dec: "deserialize_event sample_factory Guild_role_delete ?p = Inr ''r''"
    by (simp add: sample_factory_def)
  note r = per_child_handlers_forward_only [OF dec, of 2 ?s]
  have h: "handler (FORWARDED Guild_role_delete) sample_factory 2 ?p
           = Inr [Dispatch (ForwardedEvent Guild_role_delete ''r'')]"
    by (rule r [THEN conjunct1])
  have e: "exec (handler (FORWARDED Guild_role_delete) sample_factory 2 ?p) ?s
           = (None, ?s\<lparr>sink := [ForwardedEvent Guild_role_delete ''r'']\<rparr>)"
    using r [THEN conjunct2, THEN conjunct2] by simp
  show ?thesis
    unfolding Let_def by (intro conjI dec h e)
qed

section \<open>Guild create: the child collections\<close>

text \<open>
  What guild-create leaves in the six collections of its guild, the decoded children
  being those of that guild: channels, emojis, roles, members and presences hold exactly
  the decoded children; voice states hold the decoded ones on top of whatever was there.
\<close>

lemma on_guild_create_collections:
  assumes dec: "deserialize_guild_create_event ef p = Inr ev"
    and sc: "scoped (guild_id (guild ev))
               (dict_values (channels ev) @ dict_values (emojis ev) @ dict_values (roles ev)
                @ dict_values (members ev) @ dict_values (presences ev)
                @ dict_values (voice_states ev))"
  shows "(let G = guild_id (guild ev); m' = cache (snd (exec (on_guild_create ef sh p) s)) in
            children m' Channels G = store_all (dict_values (channels ev)) Map.empty
          \<and> children m' Emojis G = store_all (dict_values (emojis ev)) Map.empty
          \<and> children m' Roles G = store_all (dict_values (roles ev)) Map.empty
          \<and> children m' Members G = store_all (dict_values (members ev)) Map.empty
          \<and> children m' Presences G = store_all (dict_values (presences ev)) Map.empty
          \<and> children m' VoiceStates G =
              store_all (dict_values (voice_states ev)) (children (cache s) VoiceStates G))"
proof -
  let ?G = "guild_id (guild ev)"
  let ?cs = "[Update_guild (guild ev), Clear_guild_channels ?G]
            @ map Set_guild_channel (dict_values (channels ev))
            @ [Clear_emojis ?G]
            @ map Set_emoji (dict_values (emojis ev))
            @ [Clear_roles ?G]
            @ map Set_role (dict_values (roles ev))
            @ [Clear_members ?G]
            @ map Set_member (dict_values (members ev))
            @ [Clear_presences ?G]
            @ map Set_presence (dict_values (presences ev))
            @ map Set_voice_state (dict_values (voice_states ev))"
  have m': "cache (snd (exec (on_guild_create ef sh p) s)) = fold apply_call ?cs (cache s)"
    by (simp only: on_guild_create_shape [OF dec] exec_def run_calls_then_dispatch
        sum.case snd_conv app.select_convs)
  from sc have f:
    "filter (\<lambda>c. child_guild_id c = ?G) (dict_values (channels ev)) = dict_values (channels ev)"
    "filter (\<lambda>c. child_guild_id c = ?G) (dict_values (emojis ev)) = dict_values (emojis ev)"
    "filter (\<lambda>c. child_guild_id c = ?G) (dict_values (roles ev)) = dict_values (roles ev)"
    "filter (\<lambda>c. child_guild_id c = ?G) (dict_values (members ev)) = dict_values (members ev)"
    "filter (\<lambda>c. child_guild_id c = ?G) (dict_values (presences ev)) = dict_values (presences ev)"
    "filter (\<lambda>c. child_guild_id c = ?G) (dict_values (voice_states ev)) = dict_values (voice_states ev)"
    by (simp_all add: scoped_filter_same scoped_def)
  show ?thesis
    unfolding Let_def m' by (simp add: children_fold_set_child f)
qed

text \<open>
  C1, at a concrete input. Two guild-create payloads for guild 7 are handled in a row
  from the empty mirror: the first carries channel 3 and voice state 3, the second
  channel 4 and voice state 4. The second run issues a clear before the channel set and
  none before the voice-state set; afterwards channel 3 is gone and voice state 3, absent
  from the second snapshot, is still in the mirror.
\<close>

theorem on_guild_create_stale_voice_state:
  "(let p1 = [''id'' \<mapsto> JNum 7, ''channels'' \<mapsto> JArr [JNum 3], ''voice_states'' \<mapsto> JArr [JNum 3]];
        p2 = [''id'' \<mapsto> JNum 7, ''channels'' \<mapsto> JArr [JNum 4], ''voice_states'' \<mapsto> JArr [JNum 4]];
        s1 = snd (exec (on_guild_create sample_factory 2 p1) empty_app);
        s2 = snd (exec (on_guild_create sample_factory 2 p2) s1)
    in cache_calls (case on_guild_create sample_factory 2 p2 of Inl e \<Rightarrow> [] | Inr tr \<Rightarrow> tr) =
         [Update_guild \<lparr>guild_id = 7, guild_name = ''g''\<rparr>,
          Clear_guild_channels 7,
          Set_guild_channel \<lparr>child_guild_id = 7, child_id = 4, body = ''channels''\<rparr>,
          Clear_emojis 7, Clear_roles 7, Clear_members 7, Clear_presences 7,
          Set_voice_state \<lparr>child_guild_id = 7, child_id = 4, body = ''voice_states''\<rparr>]
       \<and> children (cache s2) Channels 7 3 = None
       \<and> children (cache s2) Channels 7 4 =
           Some \<lparr>child_guild_id = 7, child_id = 4, body = ''channels''\<rparr>
       \<and> children (cache s2) VoiceStates 7 4 =
           Some \<lparr>child_guild_id = 7, child_id = 4, body = ''voice_states''\<rparr>
       \<and> children (cache s2) VoiceStates 7 3 =
           Some \<lparr>child_guild_id = 7, child_id = 3, body = ''voice_states''\<rparr>)"
  by (simp add: Let_def on_guild_create_def sample_factory_def sample_guild_create_def
      sample_children_def sample_ids_def dict_get_def dict_values_def exec_def
      empty_app_def empty_mirror_def children_set_child)

end
